theory Spec2Isabelle
  imports Main "HOL-Library.Word"
begin

section \<open>Light client update decoder (chainsafe\_ssz\_decoder.js)\<close>

text \<open>
  A shallow embedding of \<^verbatim>\<open>src/chainsafe_ssz_decoder.js\<close>. The script reads a file into a
  Node \<^verbatim>\<open>Buffer\<close>, strips the beacon API framing (\<^verbatim>\<open>parseBeaconResponse\<close>), picks an SSZ type
  of the package \<^verbatim>\<open>@lodestar/types\<close> (\<^verbatim>\<open>getLightClientUpdateType\<close>), deserialises the payload
  with it, prints the update (\<^verbatim>\<open>displayUpdateInfo\<close>) and runs
  \<^verbatim>\<open>verifyNextSyncCommitteeProof\<close>.

  The SSZ package is not part of the repository: its types are parameters of the model
  (records of functions), so every theorem holds for whatever the package computes. The
  functions are modelled one by one; \<^verbatim>\<open>main\<close> only chains them and is not modelled.
\<close>

subsection \<open>JavaScript values\<close>

type_synonym byte = "8 word"

text \<open>A thrown JavaScript error: its class and its \<^verbatim>\<open>message\<close>.\<close>

datatype error = Error string | TypeError string | RangeError string

fun message :: "error \<Rightarrow> string" where
  "message (Error m) = m"
| "message (TypeError m) = m"
| "message (RangeError m) = m"

text \<open>One line written by \<^verbatim>\<open>console.log\<close> (standard output) or \<^verbatim>\<open>console.error\<close>.\<close>

datatype console_line = Log string | ErrorLine string

text \<open>
  The part of the world the script touches: the memory behind the file's \<^verbatim>\<open>Buffer\<close> (an
  \<^verbatim>\<open>ArrayBuffer\<close>) and the lines printed so far.
\<close>

record state =
  heap :: "byte list"
  console :: "console_line list"

definition console_log :: "string \<Rightarrow> state \<Rightarrow> state" where
  "console_log line s = s\<lparr>console := console s @ [Log line]\<rparr>"

definition console_error :: "string \<Rightarrow> state \<Rightarrow> state" where
  "console_error line s = s\<lparr>console := console s @ [ErrorLine line]\<rparr>"

text \<open>
  A Node \<^verbatim>\<open>Buffer\<close> is a view on the memory: \<^verbatim>\<open>byteOffset\<close> and \<^verbatim>\<open>length\<close>. \<^verbatim>\<open>slice\<close> makes a
  second view on the same memory, it does not copy.
\<close>

record buffer =
  byteOffset :: nat
  length_b :: nat

text \<open>\<^verbatim>\<open>buffer[i]\<close>: \<^verbatim>\<open>undefined\<close> (here \<open>None\<close>) outside the view.\<close>

definition at_index :: "byte list \<Rightarrow> buffer \<Rightarrow> nat \<Rightarrow> byte option" where
  "at_index h b i =
     (if i < length_b b \<and> byteOffset b + i < length h then Some (h ! (byteOffset b + i)) else None)"

definition buffer_bytes :: "byte list \<Rightarrow> buffer \<Rightarrow> byte list" where
  "buffer_bytes h b = take (length_b b) (drop (byteOffset b) h)"

text \<open>
  What Node guarantees of every \<^verbatim>\<open>Buffer\<close>: the view lies inside its memory, and its length
  is at most \<^verbatim>\<open>buffer.constants.MAX_LENGTH\<close>, which is \<open>2\<^sup>5\<^sup>3 - 1\<close> or less on every release.
\<close>

definition kMaxLength :: nat where
  "kMaxLength = 2 ^ 53 - 1"

definition valid_buffer :: "byte list \<Rightarrow> buffer \<Rightarrow> bool" where
  "valid_buffer h b \<longleftrightarrow> byteOffset b + length_b b \<le> length h \<and> length_b b \<le> kMaxLength"

text \<open>
  \<^verbatim>\<open>adjustOffset\<close> of Node's \<^verbatim>\<open>Buffer.prototype.slice\<close>, on the non-negative integers the script
  passes: an offset beyond the end is clamped to the length.
\<close>

definition adjustOffset :: "nat \<Rightarrow> nat \<Rightarrow> nat" where
  "adjustOffset offset len = (if offset < len then offset else len)"

definition slice_b :: "buffer \<Rightarrow> nat \<Rightarrow> nat \<Rightarrow> buffer" where
  "slice_b b start end =
     (let srcLength = length_b b;
          start' = adjustOffset start srcLength;
          end' = adjustOffset end srcLength;
          newLength = (if end' > start' then end' - start' else 0)
      in \<lparr>byteOffset = byteOffset b + start', length_b = newLength\<rparr>)"

text \<open>Little-endian bytes as an unsigned integer.\<close>

fun le_nat :: "byte list \<Rightarrow> nat" where
  "le_nat [] = 0"
| "le_nat (x # xs) = unat x + 256 * le_nat xs"

text \<open>
  \<^verbatim>\<open>buffer.readBigUInt64LE(offset)\<close>: when the first or the last of the eight bytes is outside
  the view, Node's \<^verbatim>\<open>boundsError(offset, length - 8)\<close> throws a \<^verbatim>\<open>RangeError\<close>, with the code
  \<^verbatim>\<open>ERR_BUFFER_OUT_OF_BOUNDS\<close> on a view shorter than eight bytes and \<^verbatim>\<open>ERR_OUT_OF_RANGE\<close>
  otherwise (the model carries the code; the message varies with the Node release). Else
  the result is the \<^verbatim>\<open>BigInt\<close> the eight bytes spell.
\<close>

definition readBigUInt64LE :: "byte list \<Rightarrow> buffer \<Rightarrow> nat \<Rightarrow> error + nat" where
  "readBigUInt64LE h b offset =
     (if at_index h b offset = None \<or> at_index h b (offset + 7) = None
      then (if length_b b < 8 then Inl (RangeError ''ERR_BUFFER_OUT_OF_BOUNDS'')
            else Inl (RangeError ''ERR_OUT_OF_RANGE''))
      else Inr (le_nat (map (\<lambda>i. case at_index h b (offset + i) of Some x \<Rightarrow> x | None \<Rightarrow> 0)
                         [0..<8])))"

text \<open>
  \<^verbatim>\<open>Number(n)\<close> of a non-negative \<^verbatim>\<open>BigInt\<close>: the nearest double, ties to the even
  significand. Integers below \<open>2\<^sup>5\<^sup>3\<close> are doubles; above, a double keeps the 53 leading bits.
\<close>

fun bit_length :: "nat \<Rightarrow> nat" where
  "bit_length n = (if n = 0 then 0 else Suc (bit_length (n div 2)))"

declare bit_length.simps [simp del]

definition Number :: "nat \<Rightarrow> nat" where
  "Number n =
     (if n < 2 ^ 53 then n
      else let e = bit_length n - 53;
               q = n div 2 ^ e;
               r = n mod 2 ^ e;
               half = 2 ^ (e - 1)
           in if r < half \<or> (r = half \<and> even q) then q * 2 ^ e else (q + 1) * 2 ^ e)"

text \<open>\<^verbatim>\<open>x + y\<close> on two doubles that hold non-negative integers: the exact sum, rounded.\<close>

definition plus_Number :: "nat \<Rightarrow> nat \<Rightarrow> nat" where
  "plus_Number x y = Number (x + y)"

text \<open>Template literals print a \<^verbatim>\<open>BigInt\<close> and an integer below \<open>2\<^sup>5\<^sup>3\<close> in decimal.\<close>

definition digit :: "nat \<Rightarrow> char" where
  "digit d = ''0123456789abcdef'' ! d"

function show_nat :: "nat \<Rightarrow> string" where
  "show_nat n = (if n < 10 then [digit n] else show_nat (n div 10) @ [digit (n mod 10)])"
  by pat_completeness auto
termination
  by (relation "measure id") auto

declare show_nat.simps [simp del]

text \<open>\<^verbatim>\<open>buffer.toString('hex')\<close>: two lower-case digits a byte.\<close>

definition hex_byte :: "byte \<Rightarrow> string" where
  "hex_byte x = [digit (unat x div 16), digit (unat x mod 16)]"

definition hex :: "byte list \<Rightarrow> string" where
  "hex xs = concat (map hex_byte xs)"

definition toString_hex :: "byte list \<Rightarrow> buffer \<Rightarrow> string" where
  "toString_hex h b = hex (buffer_bytes h b)"

subsection \<open>parseBeaconResponse\<close>

record frame =
  chunkLen :: nat
  forkDigest :: buffer
  payload :: buffer

definition parseBeaconResponse :: "buffer \<Rightarrow> state \<Rightarrow> (error + frame) \<times> state" where
  "parseBeaconResponse buffer s =
     (if length_b buffer < 12 then (Inl (Error ''Response too short''), s)
      else case readBigUInt64LE (heap s) buffer 0 of
          Inl e \<Rightarrow> (Inl e, s)
        | Inr chunkLen' \<Rightarrow>
            let forkDigest' = slice_b buffer 8 12;
                payload' = slice_b buffer 12 (plus_Number 12 (Number chunkLen'));
                s1 = console_log (''Chunk length: '' @ show_nat chunkLen') s;
                s2 = console_log (''Fork digest: 0x'' @ toString_hex (heap s1) forkDigest') s1;
                s3 = console_log (''Payload length: '' @ show_nat (length_b payload')) s2
            in (Inr \<lparr>chunkLen = chunkLen', forkDigest = forkDigest', payload = payload'\<rparr>, s3))"

subsection \<open>The decoded update and the types of the SSZ package\<close>

text \<open>
  The value that \<^verbatim>\<open>LightClientUpdateType.deserialize\<close> returns, with the fields the script
  reads. \<^verbatim>\<open>nextSyncCommittee\<close> is tested for truthiness, so it may be absent.
\<close>

record beacon_block_header =
  slot :: nat
  proposerIndex :: nat
  stateRoot :: "byte list"

record light_client_header =
  beacon :: beacon_block_header

record sync_committee =
  pubkeys :: "byte list list"
  aggregatePubkey :: "byte list"

record bit_array =
  uint8Array :: "byte list"
  bitLen :: nat

record sync_aggregate =
  syncCommitteeBits :: bit_array
  syncCommitteeSignature :: "byte list"

record light_client_update =
  attestedHeader :: light_client_header
  nextSyncCommittee :: "sync_committee option"
  nextSyncCommitteeBranch :: "byte list list"
  finalizedHeader :: light_client_header
  finalityBranch :: "byte list list"
  syncAggregate :: sync_aggregate
  signatureSlot :: nat

text \<open>
  The package's type objects, as far as the script calls them. \<^verbatim>\<open>hashTreeRoot\<close> and
  \<^verbatim>\<open>deserialize\<close> may throw. \<^verbatim>\<open>ssz.electra\<close>, \<^verbatim>\<open>ssz.deneb\<close> and \<^verbatim>\<open>ssz.capella\<close> are
  properties of the imported object \<^verbatim>\<open>ssz\<close>: a release of the package that does not know a
  fork has no such property, and reading it gives \<^verbatim>\<open>undefined\<close> (here \<open>None\<close>).
\<close>

record sync_committee_type =
  hashTreeRoot :: "sync_committee \<Rightarrow> error + byte list"

record update_fields =
  nextSyncCommittee_field :: sync_committee_type

record update_type =
  deserialize :: "byte list \<Rightarrow> error + light_client_update"
  fields_t :: update_fields

record fork_types =
  LightClientUpdate :: update_type

record ssz_types =
  electra :: "fork_types option"
  deneb :: "fork_types option"
  capella :: "fork_types option"

subsection \<open>getLightClientUpdateType\<close>

text \<open>
  \<^verbatim>\<open>ns.LightClientUpdate\<close>: a \<^verbatim>\<open>TypeError\<close> when \<^verbatim>\<open>ns\<close> is \<^verbatim>\<open>undefined\<close>. Nothing reads the
  message of this error.
\<close>

definition get_LightClientUpdate :: "fork_types option \<Rightarrow> error + update_type" where
  "get_LightClientUpdate ns =
     (case ns of
        None \<Rightarrow> Inl (TypeError ''Cannot read properties of undefined'')
      | Some t \<Rightarrow> Inr (LightClientUpdate t))"

text \<open>Each \<^verbatim>\<open>catch\<close> of the source is the \<open>Inl\<close> branch of a \<open>case\<close>.\<close>

definition getLightClientUpdateType ::
  "ssz_types \<Rightarrow> buffer \<Rightarrow> state \<Rightarrow> (error + update_type) \<times> state" where
  "getLightClientUpdateType ssz forkDigest' s =
     (let forkHex = toString_hex (heap s) forkDigest';
          s1 = console_log (''Fork digest: 0x'' @ forkHex) s;
          s2 = console_log ''Trying Electra LightClientUpdate type...'' s1
      in case get_LightClientUpdate (electra ssz) of
           Inr t \<Rightarrow> (Inr t, s2)
         | Inl e \<Rightarrow>
             (let s3 = console_log ''Trying Deneb LightClientUpdate type...'' s2
              in (case get_LightClientUpdate (deneb ssz) of
                    Inr t \<Rightarrow> (Inr t, s3)
                  | Inl e2 \<Rightarrow>
                      (let s4 = console_log ''Trying Capella LightClientUpdate type...'' s3
                       in (case get_LightClientUpdate (capella ssz) of
                             Inr t \<Rightarrow> (Inr t, s4)
                           | Inl e3 \<Rightarrow>
                               (Inl (Error
                                  ''Could not determine LightClientUpdate type for this fork''),
                                s4))))))"

subsection \<open>displayUpdateInfo: the participation count\<close>

text \<open>
  Lines 112 to 124 of the source. The lines before them print fields of the update; what
  they print depends on how the package renders its numbers and arrays, and is not modelled.

  \<^verbatim>\<open>byte.toString(2)\<close>: the binary numeral of a byte, \<^verbatim>\<open>"0"\<close> for zero.
\<close>

function toString2 :: "nat \<Rightarrow> string" where
  "toString2 n = (if n < 2 then [digit n] else toString2 (n div 2) @ [digit (n mod 2)])"
  by pat_completeness auto
termination
  by (relation "measure id") auto

declare toString2.simps [simp del]

text \<open>\<^verbatim>\<open>str.split(c)\<close> for a separator of one character: the pieces between its occurrences.\<close>

fun split_str :: "char \<Rightarrow> string \<Rightarrow> string list" where
  "split_str c [] = [[]]"
| "split_str c (x # xs) =
     (if x = c then [] # split_str c xs
      else case split_str c xs of
             p # ps \<Rightarrow> (x # p) # ps
           | [] \<Rightarrow> [[x]])"

text \<open>The \<^verbatim>\<open>for\<close> loop over \<^verbatim>\<open>syncBits.uint8Array\<close>, with \<^verbatim>\<open>participation\<close> as accumulator.\<close>

fun participation_loop :: "byte list \<Rightarrow> nat \<Rightarrow> nat" where
  "participation_loop [] participation = participation"
| "participation_loop (byte # rest) participation =
     participation_loop rest
       (participation + (length (split_str (CHR ''1'') (toString2 (unat byte))) - 1))"

definition displayUpdateInfo_participation :: "light_client_update \<Rightarrow> nat" where
  "displayUpdateInfo_participation update =
     (let syncBits = syncCommitteeBits (syncAggregate update)
      in participation_loop (uint8Array syncBits) 0)"

text \<open>The line \<^verbatim>\<open>console.log(`Sync committee participation: ${participation}/512`)\<close>.\<close>

definition displayUpdateInfo_participation_line :: "light_client_update \<Rightarrow> console_line" where
  "displayUpdateInfo_participation_line update =
     Log (''Sync committee participation: '' @
          show_nat (displayUpdateInfo_participation update) @ ''/512'')"

text \<open>
  The population count in the words of the specification: the number of set bits of each
  byte, summed over the bytes.
\<close>

definition popcount_byte :: "byte \<Rightarrow> nat" where
  "popcount_byte x = length (filter (bit x) [0..<8])"

definition popcount :: "byte list \<Rightarrow> nat" where
  "popcount xs = sum_list (map popcount_byte xs)"

subsection \<open>verifyNextSyncCommitteeProof\<close>

text \<open>The line feed, and the two marks the script prints as their UTF-8 bytes (U+2705, U+274C).\<close>

definition newline :: char where
  "newline = CHR 0x0A"

definition check_mark :: string where
  "check_mark = [CHR 0xE2, CHR 0x9C, CHR 0x85]"

definition cross_mark :: string where
  "cross_mark = [CHR 0xE2, CHR 0x9D, CHR 0x8C]"

text \<open>
  The result is the returned boolean and the console. Everything inside the \<^verbatim>\<open>try\<close> that can
  throw is the call of \<^verbatim>\<open>hashTreeRoot\<close>; \<^verbatim>\<open>console.error\<close> joins its two arguments with a
  space.
\<close>

definition verifyNextSyncCommitteeProof ::
  "light_client_update \<Rightarrow> update_type \<Rightarrow> state \<Rightarrow> bool \<times> state" where
  "verifyNextSyncCommitteeProof update LightClientUpdateType s =
     (case nextSyncCommittee update of
        None \<Rightarrow> (True, console_log ''No next sync committee to verify'' s)
      | Some committee \<Rightarrow>
          (let s1 = console_log (newline # ''=== Verifying Next Sync Committee Proof ==='') s;
               syncCommitteeType = nextSyncCommittee_field (fields_t LightClientUpdateType)
           in (case hashTreeRoot syncCommitteeType committee of
                 Inr syncCommitteeRoot \<Rightarrow>
                   (let s2 = console_log (''Sync committee root: 0x'' @ hex syncCommitteeRoot) s1;
                        s3 = console_log
                               (check_mark @
                                '' Successfully computed sync committee root using SSZ library'')
                               s2
                    in (True, s3))
               | Inl e \<Rightarrow>
                   (False,
                    console_error
                      (cross_mark @ '' Error verifying sync committee proof: '' @ message e)
                      s1))))"

subsection \<open>Schema resolution in the words of the specification\<close>

text \<open>
  Section 4.2 of the specification, written down to compare \<^verbatim>\<open>getLightClientUpdateType\<close> with
  it: an exact match of the fork digest against a table of known digests first; when there is
  none, the known schemas are probed in the given order (most recent first) until one decodes
  the payload; \<open>None\<close> stands for \<^verbatim>\<open>UnknownFork\<close>.
\<close>

fun probe_spec :: "update_type list \<Rightarrow> byte list \<Rightarrow> update_type option" where
  "probe_spec [] bytes = None"
| "probe_spec (t # ts) bytes =
     (case deserialize t bytes of
        Inr u \<Rightarrow> Some t
      | Inl e \<Rightarrow> probe_spec ts bytes)"

definition resolve_spec ::
  "(byte list \<times> update_type) list \<Rightarrow> update_type list \<Rightarrow> byte list \<Rightarrow> byte list \<Rightarrow>
   update_type option" where
  "resolve_spec table fallbacks digest bytes =
     (case map_of table digest of
        Some t \<Rightarrow> Some t
      | None \<Rightarrow> probe_spec fallbacks bytes)"

subsection \<open>The perturbation of the specification's end-to-end test\<close>

text \<open>
  Section 8 of the specification mutates one byte of \<^verbatim>\<open>nextSyncCommitteeBranch\<close>: byte \<open>j\<close> of
  node \<open>i\<close> of the branch becomes \<open>v\<close>.
\<close>

definition mutate_branch :: "nat \<Rightarrow> nat \<Rightarrow> byte \<Rightarrow> light_client_update \<Rightarrow> light_client_update" where
  "mutate_branch i j v update =
     update\<lparr>nextSyncCommitteeBranch :=
       (nextSyncCommitteeBranch update)
         [i := (nextSyncCommitteeBranch update ! i)[j := v]]\<rparr>"

subsection \<open>Sample values\<close>

text \<open>
  Concrete updates and concrete stand-ins for the package's types, on which the theorems below
  are instantiated: a type whose \<^verbatim>\<open>hashTreeRoot\<close> returns a root, one whose \<^verbatim>\<open>hashTreeRoot\<close>
  throws, one whose \<^verbatim>\<open>deserialize\<close> throws.
\<close>

definition sample_committee :: sync_committee where
  "sample_committee = \<lparr>pubkeys = [[1, 2, 3]], aggregatePubkey = [4, 5, 6]\<rparr>"

definition sample_header :: light_client_header where
  "sample_header = \<lparr>beacon = \<lparr>slot = 7, proposerIndex = 3, stateRoot = [0x11, 0x22]\<rparr>\<rparr>"

definition sample_update :: light_client_update where
  "sample_update =
     \<lparr>attestedHeader = sample_header,
      nextSyncCommittee = Some sample_committee,
      nextSyncCommitteeBranch = [[0xAA, 0xBB], [0xCC, 0xDD]],
      finalizedHeader = sample_header,
      finalityBranch = [],
      syncAggregate =
        \<lparr>syncCommitteeBits = \<lparr>uint8Array = replicate 64 0xFF, bitLen = 512\<rparr>,
         syncCommitteeSignature = [9]\<rparr>,
      signatureSlot = 8\<rparr>"


definition root_of_zeros :: "sync_committee \<Rightarrow> error + byte list" where
  "root_of_zeros c = Inr (replicate 32 0)"


definition deserialize_sample :: "byte list \<Rightarrow> error + light_client_update" where
  "deserialize_sample bytes = Inr sample_update"

definition deserialize_throws :: "byte list \<Rightarrow> error + light_client_update" where
  "deserialize_throws bytes = Inl (Error ''length mismatch'')"

definition sample_type :: update_type where
  "sample_type =
     \<lparr>deserialize = deserialize_sample,
      fields_t = \<lparr>nextSyncCommittee_field = \<lparr>hashTreeRoot = root_of_zeros\<rparr>\<rparr>\<rparr>"


definition sample_type_deserialize_throws :: update_type where
  "sample_type_deserialize_throws =
     \<lparr>deserialize = deserialize_throws,
      fields_t = \<lparr>nextSyncCommittee_field = \<lparr>hashTreeRoot = root_of_zeros\<rparr>\<rparr>\<rparr>"

text \<open>
  A package whose Electra type does not decode the sample payload and whose Deneb type does;
  a package that knows Deneb only; one that knows Capella only; and a package that knows none
  of the three forks.
\<close>

definition sample_ssz :: ssz_types where
  "sample_ssz =
     \<lparr>electra = Some \<lparr>LightClientUpdate = sample_type_deserialize_throws\<rparr>,
      deneb = Some \<lparr>LightClientUpdate = sample_type\<rparr>,
      capella = None\<rparr>"

definition sample_ssz_deneb_only :: ssz_types where
  "sample_ssz_deneb_only =
     \<lparr>electra = None, deneb = Some \<lparr>LightClientUpdate = sample_type\<rparr>, capella = None\<rparr>"

definition sample_ssz_capella_only :: ssz_types where
  "sample_ssz_capella_only =
     \<lparr>electra = None, deneb = None, capella = Some \<lparr>LightClientUpdate = sample_type\<rparr>\<rparr>"

definition sample_ssz_empty :: ssz_types where
  "sample_ssz_empty = \<lparr>electra = None, deneb = None, capella = None\<rparr>"

definition sample_state :: state where
  "sample_state =
     \<lparr>heap = [2, 0, 0, 0, 0, 0, 0, 0, 0xDE, 0xAD, 0xBE, 0xEF, 0xAA, 0xBB, 0xCC], console = []\<rparr>"

section \<open>Properties\<close>

subsection \<open>Doubles\<close>

lemma bit_length_bound: "0 < n \<Longrightarrow> 2 ^ (bit_length n - 1) \<le> n"
proof (induction n rule: bit_length.induct)
  case (1 n)
  then have n: "n \<noteq> 0" by simp
  then have unfold: "bit_length n = Suc (bit_length (n div 2))"
    by (subst bit_length.simps) simp
  show ?case
  proof (cases "n div 2 = 0")
    case True
    then have "bit_length (n div 2) = 0" by (subst bit_length.simps) simp
    then show ?thesis using unfold n by simp
  next
    case False
    then have ih: "2 ^ (bit_length (n div 2) - 1) \<le> n div 2" using 1 n by simp
    have "bit_length (n div 2) \<noteq> 0" using False by (subst bit_length.simps) simp
    then have "(2::nat) ^ (bit_length n - 1) = 2 * 2 ^ (bit_length (n div 2) - 1)"
      using unfold by (cases "bit_length (n div 2)") simp_all
    also have "\<dots> \<le> 2 * (n div 2)" using ih by simp
    also have "\<dots> \<le> n" by simp
    finally show ?thesis .
  qed
qed

lemma bit_length_ge: "2 ^ k \<le> n \<Longrightarrow> k < bit_length n"
proof (induction k arbitrary: n)
  case 0
  then show ?case by (subst bit_length.simps) auto
next
  case (Suc k)
  then have "2 ^ k \<le> n div 2" by auto
  then have "k < bit_length (n div 2)" by (rule Suc.IH)
  moreover have "(0::nat) < 2 ^ Suc k" by simp
  then have "n \<noteq> 0" using Suc.prems by linarith
  ultimately show ?case by (subst bit_length.simps) simp
qed

lemma Number_exact: "n < 2 ^ 53 \<Longrightarrow> Number n = n"
  by (simp add: Number_def)

lemma Number_ge:
  assumes "2 ^ 53 \<le> n"
  shows "2 ^ 53 \<le> Number n"
proof -
  define e where "e = bit_length n - 53"
  define q where "q = n div 2 ^ e"
  have "(0::nat) < 2 ^ 53" by simp
  then have n0: "0 < n" using assms by linarith
  have bl: "53 < bit_length n" using assms by (rule bit_length_ge)
  have "2 ^ (bit_length n - 1) \<le> n" using n0 by (rule bit_length_bound)
  moreover have "bit_length n - 1 = 52 + e" using bl by (simp add: e_def)
  ultimately have "2 ^ 52 * 2 ^ e \<le> n" by (simp add: power_add)
  then have "2 ^ 52 \<le> q" unfolding q_def
    by (metis div_le_mono nonzero_mult_div_cancel_right power_not_zero zero_neq_numeral)
  moreover have "1 \<le> e" using bl by (simp add: e_def)
  then have "(2::nat) ^ 1 \<le> 2 ^ e" by (rule power_increasing) simp
  ultimately have "2 ^ 52 * 2 ^ 1 \<le> q * 2 ^ e" by (rule mult_le_mono)
  then have a: "2 ^ 53 \<le> q * 2 ^ e" by simp
  have b: "q * 2 ^ e \<le> (q + 1) * 2 ^ e" by simp
  show ?thesis using assms a b
    by (simp add: Number_def Let_def e_def[symmetric] q_def[symmetric])
qed

text \<open>
  The end offset that \<^verbatim>\<open>slice\<close> uses: the rounding of \<^verbatim>\<open>12 + Number(chunkLen)\<close> never shows,
  because a rounded sum is beyond the end of every buffer.
\<close>

lemma adjustOffset_min: "adjustOffset x len = min x len"
  by (simp add: adjustOffset_def min_def)

lemma adjust_end:
  assumes "len \<le> kMaxLength"
  shows "adjustOffset (plus_Number 12 (Number c)) len = min (12 + c) len"
proof -
  have len: "len < 2 ^ 53" using assms by (simp add: kMaxLength_def)
  show ?thesis
  proof (cases "12 + c < 2 ^ 53")
    case True
    then have "c < 2 ^ 53" by simp
    then show ?thesis using True by (simp add: plus_Number_def Number_exact adjustOffset_min)
  next
    case False
    then have big: "2 ^ 53 \<le> 12 + c" by simp
    have "2 ^ 53 \<le> 12 + Number c"
    proof (cases "c < 2 ^ 53")
      case True
      then show ?thesis using big by (simp add: Number_exact)
    next
      case False
      then have "2 ^ 53 \<le> Number c" by (intro Number_ge) simp
      then show ?thesis by simp
    qed
    then have "2 ^ 53 \<le> plus_Number 12 (Number c)"
      unfolding plus_Number_def by (rule Number_ge)
    then show ?thesis using len big by (simp add: adjustOffset_min)
  qed
qed

subsection \<open>Buffers\<close>

lemma at_index_valid:
  "valid_buffer h b \<Longrightarrow> i < length_b b \<Longrightarrow> at_index h b i = Some (buffer_bytes h b ! i)"
  by (simp add: at_index_def valid_buffer_def buffer_bytes_def)

lemma length_buffer_bytes:
  "valid_buffer h b \<Longrightarrow> length (buffer_bytes h b) = length_b b"
  by (auto simp add: valid_buffer_def buffer_bytes_def)

lemma slice_b_payload:
  assumes "12 \<le> length_b b" "adjustOffset e (length_b b) = min (12 + c) (length_b b)"
  shows "slice_b b 12 e = \<lparr>byteOffset = byteOffset b + 12, length_b = min c (length_b b - 12)\<rparr>"
proof -
  have s: "adjustOffset 12 (length_b b) = 12"
    using assms(1) by (simp add: adjustOffset_def)
  show ?thesis
    unfolding slice_b_def Let_def s assms(2) using assms(1) by (auto simp add: min_def)
qed

lemma slice_b_forkDigest:
  "12 \<le> length_b b \<Longrightarrow> slice_b b 8 12 = \<lparr>byteOffset = byteOffset b + 8, length_b = 4\<rparr>"
  by (simp add: slice_b_def Let_def adjustOffset_def)

lemma buffer_bytes_window:
  "buffer_bytes h \<lparr>byteOffset = byteOffset b + k, length_b = min n (length_b b - k)\<rparr> =
     take n (drop k (buffer_bytes h b))"
  by (simp add: buffer_bytes_def drop_take add.commute)

lemma readBigUInt64LE_valid:
  assumes "valid_buffer h b" "8 \<le> length_b b"
  shows "readBigUInt64LE h b 0 = Inr (le_nat (take 8 (buffer_bytes h b)))"
proof -
  let ?bs = "buffer_bytes h b"
  have len: "length (take 8 ?bs) = 8"
    using assms by (simp add: length_buffer_bytes)
  have "map (\<lambda>i. case at_index h b (0 + i) of Some x \<Rightarrow> x | None \<Rightarrow> 0) [0..<8]
        = map (\<lambda>i. take 8 ?bs ! i) [0..<8]"
    using assms by (intro map_cong) (simp_all add: at_index_valid)
  also have "\<dots> = take 8 ?bs"
    using map_nth [of "take 8 ?bs"] len by simp
  finally have m: "map (\<lambda>i. case at_index h b (0 + i) of Some x \<Rightarrow> x | None \<Rightarrow> 0) [0..<8]
        = take 8 ?bs" .
  have "at_index h b 0 \<noteq> None" "at_index h b (0 + 7) \<noteq> None"
    using assms by (simp_all add: at_index_valid)
  then show ?thesis
    unfolding readBigUInt64LE_def using m by simp
qed

subsection \<open>The framing parser\<close>

lemma parse_short:
  "length_b b < 12 \<Longrightarrow> parseBeaconResponse b s = (Inl (Error ''Response too short''), s)"
  by (simp add: parseBeaconResponse_def)

lemma parse_ok:
  assumes "12 \<le> length_b b" "valid_buffer (heap s) b"
  shows "parseBeaconResponse b s =
     (Inr \<lparr>chunkLen = le_nat (take 8 (buffer_bytes (heap s) b)),
           forkDigest = \<lparr>byteOffset = byteOffset b + 8, length_b = 4\<rparr>,
           payload = \<lparr>byteOffset = byteOffset b + 12,
                      length_b = min (le_nat (take 8 (buffer_bytes (heap s) b))) (length_b b - 12)\<rparr>\<rparr>,
      s\<lparr>console := console s @
         [Log (''Chunk length: '' @ show_nat (le_nat (take 8 (buffer_bytes (heap s) b)))),
          Log (''Fork digest: 0x'' @ hex (take 4 (drop 8 (buffer_bytes (heap s) b)))),
          Log (''Payload length: '' @
               show_nat (min (le_nat (take 8 (buffer_bytes (heap s) b))) (length_b b - 12)))]\<rparr>)"
proof -
  let ?c = "le_nat (take 8 (buffer_bytes (heap s) b))"
  have r: "readBigUInt64LE (heap s) b 0 = Inr ?c"
    using assms by (intro readBigUInt64LE_valid) simp_all
  have len: "length_b b \<le> kMaxLength" using assms by (simp add: valid_buffer_def)
  have p: "slice_b b 12 (plus_Number 12 (Number ?c)) =
        \<lparr>byteOffset = byteOffset b + 12, length_b = min ?c (length_b b - 12)\<rparr>"
    using assms(1) adjust_end [OF len] by (rule slice_b_payload)
  have d: "slice_b b 8 12 = \<lparr>byteOffset = byteOffset b + 8, length_b = 4\<rparr>"
    using assms(1) by (rule slice_b_forkDigest)
  have "4 = min 4 (length_b b - 8)" using assms(1) by simp
  then have dh: "toString_hex (heap s) \<lparr>byteOffset = byteOffset b + 8, length_b = 4\<rparr> =
        hex (take 4 (drop 8 (buffer_bytes (heap s) b)))"
    unfolding toString_hex_def using buffer_bytes_window [of "heap s" b 8 4] by simp
  have not_short: "\<not> length_b b < 12" using assms(1) by simp
  have hp: "\<And>l. heap (console_log l s) = heap s" by (simp add: console_log_def)
  show ?thesis
    unfolding parseBeaconResponse_def Let_def
    by (simp only: not_short if_False r sum.case p d hp dh) (simp add: console_log_def)
qed

text \<open>
  C9. The framing parser only reads: whatever the buffer and whether it returns or throws,
  the memory behind the buffer is the same after \<^verbatim>\<open>parseBeaconResponse\<close> as before, and so
  are the bytes the buffer shows. (Its other effect is the three lines it prints.)
\<close>

theorem parseBeaconResponse_preserves_buffer:
  "heap (snd (parseBeaconResponse b s)) = heap s \<and>
   buffer_bytes (heap (snd (parseBeaconResponse b s))) b = buffer_bytes (heap s) b"
proof -
  have "heap (snd (parseBeaconResponse b s)) = heap s"
    by (simp add: parseBeaconResponse_def Let_def console_log_def split: sum.splits)
  then show ?thesis by simp
qed

text \<open>
  C8. On a buffer of at least 12 bytes whose first eight bytes spell the chunk length 0, the
  parser returns, and the payload it returns is empty.
\<close>

theorem parseBeaconResponse_empty_payload:
  assumes "12 \<le> length_b b" and "valid_buffer (heap s) b"
    and "le_nat (take 8 (buffer_bytes (heap s) b)) = 0"
  shows "\<exists>f. fst (parseBeaconResponse b s) = Inr f \<and> chunkLen f = 0 \<and>
             length_b (payload f) = 0 \<and>
             buffer_bytes (heap (snd (parseBeaconResponse b s))) (payload f) = []"
  using assms(3) unfolding parse_ok [OF assms(1,2)] by (simp add: buffer_bytes_def)

theorem parseBeaconResponse_empty_payload_witness:
  "12 \<le> length_b \<lparr>byteOffset = 0, length_b = 12\<rparr> \<and>
   valid_buffer [0, 0, 0, 0, 0, 0, 0, 0, 0xDE, 0xAD, 0xBE, 0xEF] \<lparr>byteOffset = 0, length_b = 12\<rparr> \<and>
   le_nat (take 8 (buffer_bytes [0, 0, 0, 0, 0, 0, 0, 0, 0xDE, 0xAD, 0xBE, 0xEF]
                     \<lparr>byteOffset = 0, length_b = 12\<rparr>)) = 0 \<and>
   (\<exists>f. fst (parseBeaconResponse \<lparr>byteOffset = 0, length_b = 12\<rparr>
               \<lparr>heap = [0, 0, 0, 0, 0, 0, 0, 0, 0xDE, 0xAD, 0xBE, 0xEF], console = []\<rparr>) = Inr f \<and>
        chunkLen f = 0 \<and> length_b (payload f) = 0)"
  using parseBeaconResponse_empty_payload
    [of "\<lparr>byteOffset = 0, length_b = 12\<rparr>"
        "\<lparr>heap = [0, 0, 0, 0, 0, 0, 0, 0, 0xDE, 0xAD, 0xBE, 0xEF], console = []\<rparr>"]
  by (auto simp add: valid_buffer_def kMaxLength_def buffer_bytes_def)

text \<open>
  C5. On a buffer of at least 12 bytes the parser returns a frame whose \<^verbatim>\<open>chunkLen\<close> is the
  little-endian unsigned integer of the bytes at offsets 0 to 7, whose \<^verbatim>\<open>forkDigest\<close> shows
  the four bytes at offsets 8 to 11, and whose \<^verbatim>\<open>payload\<close> shows the bytes of the buffer from
  offset 12 up to offset \<open>12 + chunkLen\<close> (those of them that the buffer has).
\<close>

theorem parseBeaconResponse_layout:
  assumes "12 \<le> length_b b" and "valid_buffer (heap s) b"
  shows "\<exists>f. fst (parseBeaconResponse b s) = Inr f \<and>
             chunkLen f = le_nat (take 8 (buffer_bytes (heap s) b)) \<and>
             buffer_bytes (heap (snd (parseBeaconResponse b s))) (forkDigest f) =
               take 4 (drop 8 (buffer_bytes (heap s) b)) \<and>
             buffer_bytes (heap (snd (parseBeaconResponse b s))) (payload f) =
               take (chunkLen f) (drop 12 (buffer_bytes (heap s) b))"
proof -
  have "4 = min 4 (length_b b - 8)" using assms(1) by simp
  then have d: "buffer_bytes (heap s) \<lparr>byteOffset = byteOffset b + 8, length_b = 4\<rparr> =
        take 4 (drop 8 (buffer_bytes (heap s) b))"
    using buffer_bytes_window [of "heap s" b 8 4] by simp
  show ?thesis
    unfolding parse_ok [OF assms] by (simp add: d buffer_bytes_window)
qed

theorem parseBeaconResponse_layout_witness:
  "12 \<le> length_b \<lparr>byteOffset = 0, length_b = 15\<rparr> \<and>
   valid_buffer [2, 0, 0, 0, 0, 0, 0, 0, 0xDE, 0xAD, 0xBE, 0xEF, 0xAA, 0xBB, 0xCC]
     \<lparr>byteOffset = 0, length_b = 15\<rparr> \<and>
   (\<exists>f. fst (parseBeaconResponse \<lparr>byteOffset = 0, length_b = 15\<rparr>
               \<lparr>heap = [2, 0, 0, 0, 0, 0, 0, 0, 0xDE, 0xAD, 0xBE, 0xEF, 0xAA, 0xBB, 0xCC],
                console = []\<rparr>) = Inr f \<and>
        chunkLen f = 2 \<and>
        buffer_bytes [2, 0, 0, 0, 0, 0, 0, 0, 0xDE, 0xAD, 0xBE, 0xEF, 0xAA, 0xBB, 0xCC]
          (forkDigest f) = [0xDE, 0xAD, 0xBE, 0xEF] \<and>
        buffer_bytes [2, 0, 0, 0, 0, 0, 0, 0, 0xDE, 0xAD, 0xBE, 0xEF, 0xAA, 0xBB, 0xCC]
          (payload f) = [0xAA, 0xBB])"
proof -
  have v: "valid_buffer [2, 0, 0, 0, 0, 0, 0, 0, 0xDE, 0xAD, 0xBE, 0xEF, 0xAA, 0xBB, 0xCC]
     \<lparr>byteOffset = 0, length_b = 15\<rparr>"
    by (simp add: valid_buffer_def kMaxLength_def)
  have h: "heap (snd (parseBeaconResponse \<lparr>byteOffset = 0, length_b = 15\<rparr>
               \<lparr>heap = [2, 0, 0, 0, 0, 0, 0, 0, 0xDE, 0xAD, 0xBE, 0xEF, 0xAA, 0xBB, 0xCC],
                console = []\<rparr>)) = [2, 0, 0, 0, 0, 0, 0, 0, 0xDE, 0xAD, 0xBE, 0xEF, 0xAA, 0xBB, 0xCC]"
    using parse_ok [of "\<lparr>byteOffset = 0, length_b = 15\<rparr>"
        "\<lparr>heap = [2, 0, 0, 0, 0, 0, 0, 0, 0xDE, 0xAD, 0xBE, 0xEF, 0xAA, 0xBB, 0xCC], console = []\<rparr>"] v
    by simp
  show ?thesis
    using v parseBeaconResponse_layout
      [of "\<lparr>byteOffset = 0, length_b = 15\<rparr>"
          "\<lparr>heap = [2, 0, 0, 0, 0, 0, 0, 0, 0xDE, 0xAD, 0xBE, 0xEF, 0xAA, 0xBB, 0xCC], console = []\<rparr>"]
    unfolding h
    by (auto simp add: buffer_bytes_def)
qed

text \<open>
  C4. The claim that the parser throws whenever \<open>12 + chunkLen\<close> exceeds the length of the
  buffer fails: on 14 bytes that declare a chunk of 5 bytes and carry 2, the parser returns,
  with a payload of 2 bytes.
\<close>

theorem parseBeaconResponse_truncated_counterexample:
  "length_b \<lparr>byteOffset = 0, length_b = 14\<rparr> <
     12 + le_nat (take 8 (buffer_bytes [5, 0, 0, 0, 0, 0, 0, 0, 0xDE, 0xAD, 0xBE, 0xEF, 0xAA, 0xBB]
                            \<lparr>byteOffset = 0, length_b = 14\<rparr>)) \<and>
   fst (parseBeaconResponse \<lparr>byteOffset = 0, length_b = 14\<rparr>
          \<lparr>heap = [5, 0, 0, 0, 0, 0, 0, 0, 0xDE, 0xAD, 0xBE, 0xEF, 0xAA, 0xBB], console = []\<rparr>) =
     Inr \<lparr>chunkLen = 5,
          forkDigest = \<lparr>byteOffset = 8, length_b = 4\<rparr>,
          payload = \<lparr>byteOffset = 12, length_b = 2\<rparr>\<rparr>"
proof -
  have v: "valid_buffer [5, 0, 0, 0, 0, 0, 0, 0, 0xDE, 0xAD, 0xBE, 0xEF, 0xAA, 0xBB]
     \<lparr>byteOffset = 0, length_b = 14\<rparr>"
    by (simp add: valid_buffer_def kMaxLength_def)
  show ?thesis
    using parse_ok [of "\<lparr>byteOffset = 0, length_b = 14\<rparr>"
        "\<lparr>heap = [5, 0, 0, 0, 0, 0, 0, 0, 0xDE, 0xAD, 0xBE, 0xEF, 0xAA, 0xBB], console = []\<rparr>"] v
    by (simp add: buffer_bytes_def)
qed

text \<open>
  C4, as the code has it. The parser throws (\<^verbatim>\<open>Response too short\<close>) exactly when the buffer
  has fewer than 12 bytes. On 12 bytes or more it returns, and the length of the payload is
  the smaller of the declared \<^verbatim>\<open>chunkLen\<close> and the number of bytes after the header: exactly
  \<^verbatim>\<open>chunkLen\<close> when the buffer holds that many, the rest of the buffer when it is shorter.
\<close>

theorem parseBeaconResponse_payload_length:
  assumes "valid_buffer (heap s) b"
  shows "(length_b b < 12 \<longrightarrow>
            parseBeaconResponse b s = (Inl (Error ''Response too short''), s)) \<and>
         (12 \<le> length_b b \<longrightarrow>
            (\<exists>f. fst (parseBeaconResponse b s) = Inr f \<and>
                 chunkLen f = le_nat (take 8 (buffer_bytes (heap s) b)) \<and>
                 length_b (payload f) = min (chunkLen f) (length_b b - 12) \<and>
                 (chunkLen f \<le> length_b b - 12 \<longrightarrow> length_b (payload f) = chunkLen f) \<and>
                 (length_b b - 12 < chunkLen f \<longrightarrow> length_b (payload f) = length_b b - 12)))"
proof (intro conjI impI)
  assume "length_b b < 12"
  then show "parseBeaconResponse b s = (Inl (Error ''Response too short''), s)"
    by (rule parse_short)
next
  assume long: "12 \<le> length_b b"
  show "\<exists>f. fst (parseBeaconResponse b s) = Inr f \<and>
             chunkLen f = le_nat (take 8 (buffer_bytes (heap s) b)) \<and>
             length_b (payload f) = min (chunkLen f) (length_b b - 12) \<and>
             (chunkLen f \<le> length_b b - 12 \<longrightarrow> length_b (payload f) = chunkLen f) \<and>
             (length_b b - 12 < chunkLen f \<longrightarrow> length_b (payload f) = length_b b - 12)"
    unfolding parse_ok [OF long assms] by simp
qed

theorem parseBeaconResponse_payload_length_witness:
  "valid_buffer [1, 2, 3] \<lparr>byteOffset = 0, length_b = 3\<rparr> \<and>
   length_b \<lparr>byteOffset = 0, length_b = 3\<rparr> < 12 \<and>
   parseBeaconResponse \<lparr>byteOffset = 0, length_b = 3\<rparr> \<lparr>heap = [1, 2, 3], console = []\<rparr> =
     (Inl (Error ''Response too short''), \<lparr>heap = [1, 2, 3], console = []\<rparr>) \<and>
   valid_buffer [2, 0, 0, 0, 0, 0, 0, 0, 0xDE, 0xAD, 0xBE, 0xEF, 0xAA, 0xBB, 0xCC]
     \<lparr>byteOffset = 0, length_b = 15\<rparr> \<and>
   12 \<le> length_b \<lparr>byteOffset = 0, length_b = 15\<rparr> \<and>
   (\<exists>f. fst (parseBeaconResponse \<lparr>byteOffset = 0, length_b = 15\<rparr>
               \<lparr>heap = [2, 0, 0, 0, 0, 0, 0, 0, 0xDE, 0xAD, 0xBE, 0xEF, 0xAA, 0xBB, 0xCC],
                console = []\<rparr>) = Inr f \<and>
        chunkLen f = 2 \<and> chunkLen f \<le> length_b \<lparr>byteOffset = 0, length_b = 15\<rparr> - 12 \<and>
        length_b (payload f) = 2) \<and>
   valid_buffer [5, 0, 0, 0, 0, 0, 0, 0, 0xDE, 0xAD, 0xBE, 0xEF, 0xAA, 0xBB]
     \<lparr>byteOffset = 0, length_b = 14\<rparr> \<and>
   (\<exists>f. fst (parseBeaconResponse \<lparr>byteOffset = 0, length_b = 14\<rparr>
               \<lparr>heap = [5, 0, 0, 0, 0, 0, 0, 0, 0xDE, 0xAD, 0xBE, 0xEF, 0xAA, 0xBB],
                console = []\<rparr>) = Inr f \<and>
        chunkLen f = 5 \<and> length_b \<lparr>byteOffset = 0, length_b = 14\<rparr> - 12 < chunkLen f \<and>
        length_b (payload f) = 2)"
proof -
  have v1: "valid_buffer [1, 2, 3] \<lparr>byteOffset = 0, length_b = 3\<rparr>"
    and v2: "valid_buffer [2, 0, 0, 0, 0, 0, 0, 0, 0xDE, 0xAD, 0xBE, 0xEF, 0xAA, 0xBB, 0xCC]
     \<lparr>byteOffset = 0, length_b = 15\<rparr>"
    and v3: "valid_buffer [5, 0, 0, 0, 0, 0, 0, 0, 0xDE, 0xAD, 0xBE, 0xEF, 0xAA, 0xBB]
     \<lparr>byteOffset = 0, length_b = 14\<rparr>"
    by (simp_all add: valid_buffer_def kMaxLength_def)
  have a: "parseBeaconResponse \<lparr>byteOffset = 0, length_b = 3\<rparr> \<lparr>heap = [1, 2, 3], console = []\<rparr> =
     (Inl (Error ''Response too short''), \<lparr>heap = [1, 2, 3], console = []\<rparr>)"
    using parseBeaconResponse_payload_length
      [of "\<lparr>heap = [1, 2, 3], console = []\<rparr>" "\<lparr>byteOffset = 0, length_b = 3\<rparr>"] v1
    by simp
  have b: "\<exists>f. fst (parseBeaconResponse \<lparr>byteOffset = 0, length_b = 15\<rparr>
               \<lparr>heap = [2, 0, 0, 0, 0, 0, 0, 0, 0xDE, 0xAD, 0xBE, 0xEF, 0xAA, 0xBB, 0xCC],
                console = []\<rparr>) = Inr f \<and>
        chunkLen f = 2 \<and> chunkLen f \<le> length_b \<lparr>byteOffset = 0, length_b = 15\<rparr> - 12 \<and>
        length_b (payload f) = 2"
    using parseBeaconResponse_payload_length
      [of "\<lparr>heap = [2, 0, 0, 0, 0, 0, 0, 0, 0xDE, 0xAD, 0xBE, 0xEF, 0xAA, 0xBB, 0xCC], console = []\<rparr>"
          "\<lparr>byteOffset = 0, length_b = 15\<rparr>"] v2
    by (auto simp add: buffer_bytes_def)
  have c: "\<exists>f. fst (parseBeaconResponse \<lparr>byteOffset = 0, length_b = 14\<rparr>
               \<lparr>heap = [5, 0, 0, 0, 0, 0, 0, 0, 0xDE, 0xAD, 0xBE, 0xEF, 0xAA, 0xBB],
                console = []\<rparr>) = Inr f \<and>
        chunkLen f = 5 \<and> length_b \<lparr>byteOffset = 0, length_b = 14\<rparr> - 12 < chunkLen f \<and>
        length_b (payload f) = 2"
    using parseBeaconResponse_payload_length
      [of "\<lparr>heap = [5, 0, 0, 0, 0, 0, 0, 0, 0xDE, 0xAD, 0xBE, 0xEF, 0xAA, 0xBB], console = []\<rparr>"
          "\<lparr>byteOffset = 0, length_b = 14\<rparr>"] v3
    by (auto simp add: buffer_bytes_def)
  show ?thesis using v1 v2 v3 a b c by simp
qed

subsection \<open>Schema resolution\<close>

lemma getLightClientUpdateType_result:
  "fst (getLightClientUpdateType ssz d s) =
     (case electra ssz of
        Some t \<Rightarrow> Inr (LightClientUpdate t)
      | None \<Rightarrow>
          (case deneb ssz of
             Some t \<Rightarrow> Inr (LightClientUpdate t)
           | None \<Rightarrow>
               (case capella ssz of
                  Some t \<Rightarrow> Inr (LightClientUpdate t)
                | None \<Rightarrow>
                    Inl (Error ''Could not determine LightClientUpdate type for this fork''))))"
  by (simp add: getLightClientUpdateType_def get_LightClientUpdate_def Let_def
      split: option.splits)

text \<open>
  C10. The claim that the fallback branches cannot be reached fails on a package that does not
  export \<^verbatim>\<open>ssz.electra\<close>: reading \<^verbatim>\<open>LightClientUpdate\<close> of \<^verbatim>\<open>undefined\<close> throws, the \<^verbatim>\<open>catch\<close>
  runs, and the function prints \<^verbatim>\<open>Trying Deneb LightClientUpdate type...\<close> and returns the
  Deneb type. On a package that exports none of the three forks the function throws.
\<close>

theorem getLightClientUpdateType_fallback_counterexample:
  "electra sample_ssz_deneb_only = None \<and>
   getLightClientUpdateType sample_ssz_deneb_only \<lparr>byteOffset = 8, length_b = 4\<rparr> sample_state =
     (Inr sample_type,
      sample_state\<lparr>console :=
         [Log ''Fork digest: 0xdeadbeef'',
          Log ''Trying Electra LightClientUpdate type...'',
          Log ''Trying Deneb LightClientUpdate type...'']\<rparr>) \<and>
   fst (getLightClientUpdateType sample_ssz_empty \<lparr>byteOffset = 8, length_b = 4\<rparr> sample_state) =
     Inl (Error ''Could not determine LightClientUpdate type for this fork'')"
proof -
  have h: "toString_hex (heap sample_state) \<lparr>byteOffset = 8, length_b = 4\<rparr> = ''deadbeef''"
    by (simp add: toString_hex_def buffer_bytes_def sample_state_def hex_def hex_byte_def
        digit_def)
  have c: "console sample_state = []"
    by (simp add: sample_state_def)
  have a: "electra sample_ssz_deneb_only = None"
    by (simp add: sample_ssz_deneb_only_def)
  have b: "getLightClientUpdateType sample_ssz_deneb_only \<lparr>byteOffset = 8, length_b = 4\<rparr>
      sample_state =
     (Inr sample_type,
      sample_state\<lparr>console :=
         [Log ''Fork digest: 0xdeadbeef'',
          Log ''Trying Electra LightClientUpdate type...'',
          Log ''Trying Deneb LightClientUpdate type...'']\<rparr>)"
    by (simp add: getLightClientUpdateType_def get_LightClientUpdate_def Let_def console_log_def
        sample_ssz_deneb_only_def h c)
  have e: "fst (getLightClientUpdateType sample_ssz_empty \<lparr>byteOffset = 8, length_b = 4\<rparr>
      sample_state) = Inl (Error ''Could not determine LightClientUpdate type for this fork'')"
    by (simp add: getLightClientUpdateType_result sample_ssz_empty_def)
  show ?thesis using a b e by simp
qed

text \<open>
  C10, as the code has it. When the package exports \<^verbatim>\<open>ssz.electra\<close>, every fork digest, known
  or not, gets the Electra type: the function returns it and does not throw, and it prints the
  digest and \<^verbatim>\<open>Trying Electra LightClientUpdate type...\<close> and nothing else, so no fallback branch
  is entered. A \<^verbatim>\<open>catch\<close> runs when the property access before it throws, that is when the
  namespace it reads is \<^verbatim>\<open>undefined\<close>: without \<^verbatim>\<open>ssz.electra\<close> the Deneb branch is entered,
  without \<^verbatim>\<open>ssz.deneb\<close> as well the Capella branch, and without all three the function throws.
\<close>

theorem getLightClientUpdateType_electra_when_exported:
  "(electra ssz = Some t \<longrightarrow>
      getLightClientUpdateType ssz d s =
        (Inr (LightClientUpdate t),
         s\<lparr>console := console s @
            [Log (''Fork digest: 0x'' @ toString_hex (heap s) d),
             Log ''Trying Electra LightClientUpdate type...'']\<rparr>)) \<and>
   (electra ssz = None \<and> deneb ssz = Some t \<longrightarrow>
      getLightClientUpdateType ssz d s =
        (Inr (LightClientUpdate t),
         s\<lparr>console := console s @
            [Log (''Fork digest: 0x'' @ toString_hex (heap s) d),
             Log ''Trying Electra LightClientUpdate type...'',
             Log ''Trying Deneb LightClientUpdate type...'']\<rparr>)) \<and>
   (electra ssz = None \<and> deneb ssz = None \<and> capella ssz = Some t \<longrightarrow>
      getLightClientUpdateType ssz d s =
        (Inr (LightClientUpdate t),
         s\<lparr>console := console s @
            [Log (''Fork digest: 0x'' @ toString_hex (heap s) d),
             Log ''Trying Electra LightClientUpdate type...'',
             Log ''Trying Deneb LightClientUpdate type...'',
             Log ''Trying Capella LightClientUpdate type...'']\<rparr>)) \<and>
   (electra ssz = None \<and> deneb ssz = None \<and> capella ssz = None \<longrightarrow>
      getLightClientUpdateType ssz d s =
        (Inl (Error ''Could not determine LightClientUpdate type for this fork''),
         s\<lparr>console := console s @
            [Log (''Fork digest: 0x'' @ toString_hex (heap s) d),
             Log ''Trying Electra LightClientUpdate type...'',
             Log ''Trying Deneb LightClientUpdate type...'',
             Log ''Trying Capella LightClientUpdate type...'']\<rparr>))"
  by (simp add: getLightClientUpdateType_def get_LightClientUpdate_def Let_def console_log_def)

theorem getLightClientUpdateType_electra_when_exported_witness:
  "electra sample_ssz = Some \<lparr>LightClientUpdate = sample_type_deserialize_throws\<rparr> \<and>
   getLightClientUpdateType sample_ssz \<lparr>byteOffset = 8, length_b = 4\<rparr> sample_state =
     (Inr sample_type_deserialize_throws,
      sample_state\<lparr>console :=
         [Log ''Fork digest: 0xdeadbeef'', Log ''Trying Electra LightClientUpdate type...'']\<rparr>) \<and>
   electra sample_ssz_deneb_only = None \<and>
   deneb sample_ssz_deneb_only = Some \<lparr>LightClientUpdate = sample_type\<rparr> \<and>
   fst (getLightClientUpdateType sample_ssz_deneb_only \<lparr>byteOffset = 8, length_b = 4\<rparr>
          sample_state) = Inr sample_type \<and>
   electra sample_ssz_capella_only = None \<and> deneb sample_ssz_capella_only = None \<and>
   capella sample_ssz_capella_only = Some \<lparr>LightClientUpdate = sample_type\<rparr> \<and>
   fst (getLightClientUpdateType sample_ssz_capella_only \<lparr>byteOffset = 8, length_b = 4\<rparr>
          sample_state) = Inr sample_type \<and>
   electra sample_ssz_empty = None \<and> deneb sample_ssz_empty = None \<and>
   capella sample_ssz_empty = None \<and>
   fst (getLightClientUpdateType sample_ssz_empty \<lparr>byteOffset = 8, length_b = 4\<rparr>
          sample_state) =
     Inl (Error ''Could not determine LightClientUpdate type for this fork'')"
proof -
  have h: "toString_hex (heap sample_state) \<lparr>byteOffset = 8, length_b = 4\<rparr> = ''deadbeef''"
    by (simp add: toString_hex_def buffer_bytes_def sample_state_def hex_def hex_byte_def
        digit_def)
  have c: "console sample_state = []"
    by (simp add: sample_state_def)
  have e1: "electra sample_ssz = Some \<lparr>LightClientUpdate = sample_type_deserialize_throws\<rparr>"
    by (simp add: sample_ssz_def)
  have e2: "electra sample_ssz_deneb_only = None"
    "deneb sample_ssz_deneb_only = Some \<lparr>LightClientUpdate = sample_type\<rparr>"
    by (simp_all add: sample_ssz_deneb_only_def)
  have e3: "electra sample_ssz_capella_only = None" "deneb sample_ssz_capella_only = None"
    "capella sample_ssz_capella_only = Some \<lparr>LightClientUpdate = sample_type\<rparr>"
    by (simp_all add: sample_ssz_capella_only_def)
  have e4: "electra sample_ssz_empty = None" "deneb sample_ssz_empty = None"
    "capella sample_ssz_empty = None"
    by (simp_all add: sample_ssz_empty_def)
  have r1: "getLightClientUpdateType sample_ssz \<lparr>byteOffset = 8, length_b = 4\<rparr> sample_state =
     (Inr sample_type_deserialize_throws,
      sample_state\<lparr>console :=
         [Log ''Fork digest: 0xdeadbeef'', Log ''Trying Electra LightClientUpdate type...'']\<rparr>)"
    using getLightClientUpdateType_electra_when_exported
      [of sample_ssz "\<lparr>LightClientUpdate = sample_type_deserialize_throws\<rparr>"
          "\<lparr>byteOffset = 8, length_b = 4\<rparr>" sample_state] e1
    by (simp add: h c)
  have r2: "fst (getLightClientUpdateType sample_ssz_deneb_only \<lparr>byteOffset = 8, length_b = 4\<rparr>
          sample_state) = Inr sample_type"
    using getLightClientUpdateType_electra_when_exported
      [of sample_ssz_deneb_only "\<lparr>LightClientUpdate = sample_type\<rparr>"
          "\<lparr>byteOffset = 8, length_b = 4\<rparr>" sample_state] e2
    by simp
  have r3: "fst (getLightClientUpdateType sample_ssz_capella_only \<lparr>byteOffset = 8, length_b = 4\<rparr>
          sample_state) = Inr sample_type"
    using getLightClientUpdateType_electra_when_exported
      [of sample_ssz_capella_only "\<lparr>LightClientUpdate = sample_type\<rparr>"
          "\<lparr>byteOffset = 8, length_b = 4\<rparr>" sample_state] e3
    by simp
  have r4: "fst (getLightClientUpdateType sample_ssz_empty \<lparr>byteOffset = 8, length_b = 4\<rparr>
          sample_state) =
     Inl (Error ''Could not determine LightClientUpdate type for this fork'')"
    using getLightClientUpdateType_electra_when_exported
      [of sample_ssz_empty "\<lparr>LightClientUpdate = sample_type\<rparr>"
          "\<lparr>byteOffset = 8, length_b = 4\<rparr>" sample_state] e4
    by simp
  show ?thesis using e1 e2 e3 e4 r1 r2 r3 r4 by simp
qed

text \<open>
  C3. The code does not resolve the schema from the fork. Take a package whose Electra type
  fails to decode the payload and whose Deneb type decodes it, and the digest \<^verbatim>\<open>deadbeef\<close>. With
  a table that maps this digest to Deneb, the specification resolves it to Deneb; with no table
  entry, it probes Electra, sees the payload fail to decode, and advances to Deneb. The code
  returns the Electra type both times, the type that does not decode the payload.
\<close>

theorem getLightClientUpdateType_returns_undecodable_type:
  "fst (getLightClientUpdateType sample_ssz \<lparr>byteOffset = 8, length_b = 4\<rparr> sample_state) =
     Inr sample_type_deserialize_throws \<and>
   deserialize sample_type_deserialize_throws [0xAA, 0xBB] = Inl (Error ''length mismatch'') \<and>
   resolve_spec [([0xDE, 0xAD, 0xBE, 0xEF], sample_type)]
     [sample_type_deserialize_throws, sample_type]
     (buffer_bytes (heap sample_state) \<lparr>byteOffset = 8, length_b = 4\<rparr>) [0xAA, 0xBB] =
     Some sample_type \<and>
   resolve_spec [] [sample_type_deserialize_throws, sample_type]
     (buffer_bytes (heap sample_state) \<lparr>byteOffset = 8, length_b = 4\<rparr>) [0xAA, 0xBB] =
     Some sample_type \<and>
   sample_type \<noteq> sample_type_deserialize_throws"
proof -
  have a: "fst (getLightClientUpdateType sample_ssz \<lparr>byteOffset = 8, length_b = 4\<rparr> sample_state) =
     Inr sample_type_deserialize_throws"
    by (simp add: getLightClientUpdateType_result sample_ssz_def)
  have b: "deserialize sample_type_deserialize_throws [0xAA, 0xBB] = Inl (Error ''length mismatch'')"
    by (simp add: sample_type_deserialize_throws_def deserialize_throws_def)
  have ok: "deserialize sample_type [0xAA, 0xBB] = Inr sample_update"
    by (simp add: sample_type_def deserialize_sample_def)
  have d: "buffer_bytes (heap sample_state) \<lparr>byteOffset = 8, length_b = 4\<rparr> = [0xDE, 0xAD, 0xBE, 0xEF]"
    by (simp add: buffer_bytes_def sample_state_def)
  have c1: "resolve_spec [([0xDE, 0xAD, 0xBE, 0xEF], sample_type)]
     [sample_type_deserialize_throws, sample_type] [0xDE, 0xAD, 0xBE, 0xEF] [0xAA, 0xBB] =
     Some sample_type"
    by (simp add: resolve_spec_def)
  have c2: "resolve_spec [] [sample_type_deserialize_throws, sample_type]
     [0xDE, 0xAD, 0xBE, 0xEF] [0xAA, 0xBB] = Some sample_type"
    by (simp add: resolve_spec_def b ok)
  have "deserialize sample_type [0xAA, 0xBB] \<noteq> deserialize sample_type_deserialize_throws [0xAA, 0xBB]"
    unfolding b ok by simp
  then have e: "sample_type \<noteq> sample_type_deserialize_throws"
    by auto
  show ?thesis
    unfolding d using a b c1 c2 e by simp
qed

subsection \<open>The verification step\<close>


lemma verify_root:
  "nextSyncCommittee u = Some c \<Longrightarrow>
   hashTreeRoot (nextSyncCommittee_field (fields_t T)) c = Inr r \<Longrightarrow>
   verifyNextSyncCommitteeProof u T s =
     (True,
      s\<lparr>console := console s @
         [Log (newline # ''=== Verifying Next Sync Committee Proof ===''),
          Log (''Sync committee root: 0x'' @ hex r),
          Log (check_mark @ '' Successfully computed sync committee root using SSZ library'')]\<rparr>)"
  by (simp add: verifyNextSyncCommitteeProof_def Let_def console_log_def)





text \<open>
  C1. The verification step does not look at \<^verbatim>\<open>nextSyncCommitteeBranch\<close>. The sample update
  decodes, has a next sync committee, and its branch is mutated in one byte (\<open>0xBB\<close> becomes
  \<open>0xFF\<close>): the step still returns \<^verbatim>\<open>true\<close>, with the lines of a computed root.
\<close>

theorem verifyNextSyncCommitteeProof_accepts_mutated_branch:
  "deserialize sample_type [0xAA, 0xBB] = Inr sample_update \<and>
   nextSyncCommittee (mutate_branch 0 1 0xFF sample_update) = Some sample_committee \<and>
   nextSyncCommitteeBranch sample_update = [[0xAA, 0xBB], [0xCC, 0xDD]] \<and>
   nextSyncCommitteeBranch (mutate_branch 0 1 0xFF sample_update) = [[0xAA, 0xFF], [0xCC, 0xDD]] \<and>
   verifyNextSyncCommitteeProof (mutate_branch 0 1 0xFF sample_update) sample_type sample_state =
     (True,
      sample_state\<lparr>console :=
         [Log (newline # ''=== Verifying Next Sync Committee Proof ===''),
          Log (''Sync committee root: 0x'' @ hex (replicate 32 0)),
          Log (check_mark @
               '' Successfully computed sync committee root using SSZ library'')]\<rparr>)"
proof -
  have m: "nextSyncCommittee (mutate_branch 0 1 0xFF sample_update) = Some sample_committee"
    by (simp add: mutate_branch_def sample_update_def)
  have c: "hashTreeRoot (nextSyncCommittee_field (fields_t sample_type)) sample_committee =
     Inr (replicate 32 0)"
    by (simp add: sample_type_def root_of_zeros_def)
  have e: "console sample_state = []"
    by (simp add: sample_state_def)
  have v: "verifyNextSyncCommitteeProof (mutate_branch 0 1 0xFF sample_update) sample_type
     sample_state =
     (True,
      sample_state\<lparr>console :=
         [Log (newline # ''=== Verifying Next Sync Committee Proof ===''),
          Log (''Sync committee root: 0x'' @ hex (replicate 32 0)),
          Log (check_mark @
               '' Successfully computed sync committee root using SSZ library'')]\<rparr>)"
    unfolding verify_root [OF m c] e by simp
  have d: "deserialize sample_type [0xAA, 0xBB] = Inr sample_update"
    by (simp add: sample_type_def deserialize_sample_def)
  have b: "nextSyncCommitteeBranch sample_update = [[0xAA, 0xBB], [0xCC, 0xDD]]"
    by (simp add: sample_update_def)
  have b': "nextSyncCommitteeBranch (mutate_branch 0 1 0xFF sample_update) =
     [[0xAA, 0xFF], [0xCC, 0xDD]]"
    by (simp add: mutate_branch_def sample_update_def)
  show ?thesis using d m b b' v by simp
qed

text \<open>
  C2. With a next sync committee present, the step returns \<^verbatim>\<open>true\<close> whenever \<^verbatim>\<open>hashTreeRoot\<close>
  of the committee returns. Its whole result is a function of the committee, the type and the
  console alone: two updates with the same committee give the same result, whatever their
  branches and their attested headers (state root included) are, and so does an update after a
  one-byte mutation of its branch.
\<close>

theorem verifyNextSyncCommitteeProof_ignores_proof:
  assumes "nextSyncCommittee u = Some c"
  shows "(\<forall>r. hashTreeRoot (nextSyncCommittee_field (fields_t T)) c = Inr r \<longrightarrow>
              fst (verifyNextSyncCommitteeProof u T s) = True) \<and>
         (\<forall>u'. nextSyncCommittee u' = nextSyncCommittee u \<longrightarrow>
               verifyNextSyncCommitteeProof u' T s = verifyNextSyncCommitteeProof u T s) \<and>
         verifyNextSyncCommitteeProof
           (u\<lparr>nextSyncCommitteeBranch := branch,
              attestedHeader := (attestedHeader u)\<lparr>beacon :=
                (beacon (attestedHeader u))\<lparr>stateRoot := root\<rparr>\<rparr>\<rparr>) T s =
           verifyNextSyncCommitteeProof u T s \<and>
         verifyNextSyncCommitteeProof (mutate_branch i j v u) T s =
           verifyNextSyncCommitteeProof u T s"
proof (intro conjI allI impI)
  fix r
  assume "hashTreeRoot (nextSyncCommittee_field (fields_t T)) c = Inr r"
  with assms show "fst (verifyNextSyncCommitteeProof u T s) = True"
    by (simp add: verify_root)
next
  fix u' :: light_client_update
  assume "nextSyncCommittee u' = nextSyncCommittee u"
  then show "verifyNextSyncCommitteeProof u' T s = verifyNextSyncCommitteeProof u T s"
    by (simp add: verifyNextSyncCommitteeProof_def)
next
  show "verifyNextSyncCommitteeProof
           (u\<lparr>nextSyncCommitteeBranch := branch,
              attestedHeader := (attestedHeader u)\<lparr>beacon :=
                (beacon (attestedHeader u))\<lparr>stateRoot := root\<rparr>\<rparr>\<rparr>) T s =
           verifyNextSyncCommitteeProof u T s"
    by (simp add: verifyNextSyncCommitteeProof_def)
next
  show "verifyNextSyncCommitteeProof (mutate_branch i j v u) T s =
           verifyNextSyncCommitteeProof u T s"
    by (simp add: verifyNextSyncCommitteeProof_def mutate_branch_def)
qed

theorem verifyNextSyncCommitteeProof_ignores_proof_witness:
  "nextSyncCommittee sample_update = Some sample_committee \<and>
   hashTreeRoot (nextSyncCommittee_field (fields_t sample_type)) sample_committee =
     Inr (replicate 32 0) \<and>
   fst (verifyNextSyncCommitteeProof sample_update sample_type sample_state) = True \<and>
   nextSyncCommittee (sample_update\<lparr>nextSyncCommitteeBranch := []\<rparr>) =
     nextSyncCommittee sample_update \<and>
   verifyNextSyncCommitteeProof (sample_update\<lparr>nextSyncCommitteeBranch := []\<rparr>) sample_type
     sample_state =
   verifyNextSyncCommitteeProof sample_update sample_type sample_state \<and>
   verifyNextSyncCommitteeProof
     (sample_update\<lparr>nextSyncCommitteeBranch := [[0x01]],
        attestedHeader := (attestedHeader sample_update)\<lparr>beacon :=
          (beacon (attestedHeader sample_update))\<lparr>stateRoot := [0x99]\<rparr>\<rparr>\<rparr>)
     sample_type sample_state =
   verifyNextSyncCommitteeProof sample_update sample_type sample_state"
proof -
  have b: "nextSyncCommittee sample_update = Some sample_committee"
    by (simp add: sample_update_def)
  have c: "hashTreeRoot (nextSyncCommittee_field (fields_t sample_type)) sample_committee =
     Inr (replicate 32 0)"
    by (simp add: sample_type_def root_of_zeros_def)
  have n: "nextSyncCommittee (sample_update\<lparr>nextSyncCommitteeBranch := []\<rparr>) =
     nextSyncCommittee sample_update"
    by simp
  note t = verifyNextSyncCommitteeProof_ignores_proof
    [OF b, where T = sample_type and s = sample_state and branch = "[[0x01]]"
      and root = "[0x99]" and i = 0 and j = 0 and v = 0]
  from t have t1: "fst (verifyNextSyncCommitteeProof sample_update sample_type sample_state) = True"
    using c by blast
  from t have t2: "verifyNextSyncCommitteeProof (sample_update\<lparr>nextSyncCommitteeBranch := []\<rparr>)
      sample_type sample_state =
      verifyNextSyncCommitteeProof sample_update sample_type sample_state"
    using n by blast
  from t have t3: "verifyNextSyncCommitteeProof
     (sample_update\<lparr>nextSyncCommitteeBranch := [[0x01]],
        attestedHeader := (attestedHeader sample_update)\<lparr>beacon :=
          (beacon (attestedHeader sample_update))\<lparr>stateRoot := [0x99]\<rparr>\<rparr>\<rparr>)
     sample_type sample_state =
     verifyNextSyncCommitteeProof sample_update sample_type sample_state"
    by blast
  show ?thesis using b c n t1 t2 t3 by blast
qed

subsection \<open>The participation count\<close>

lemma split_str_not_Nil: "split_str c s \<noteq> []"
  by (induction s) (auto split: list.splits)

lemma length_split_str: "length (split_str c s) = Suc (length (filter (\<lambda>x. x = c) s))"
proof (induction s)
  case Nil
  then show ?case by simp
next
  case (Cons x xs)
  obtain p ps where "split_str c xs = p # ps"
    using split_str_not_Nil [of c xs] by (cases "split_str c xs") auto
  with Cons show ?case by auto
qed

lemma count_bits_Suc:
  "length (filter (bit (n::nat)) [0..<Suc k]) =
     (if odd n then 1 else 0) + length (filter (bit (n div 2)) [0..<k])"
proof -
  have "[0..<Suc k] = 0 # map Suc [0..<k]"
    by (simp add: upt_conv_Cons map_Suc_upt del: upt_Suc)
  then have "filter (bit n) [0..<Suc k] =
      filter (bit n) [0] @ map Suc (filter (bit n \<circ> Suc) [0..<k])"
    by (simp add: filter_map del: upt_Suc)
  moreover have "bit n \<circ> Suc = bit (n div 2)"
    by (auto simp add: bit_Suc)
  ultimately show ?thesis
    by (simp add: bit_0 del: upt_Suc)
qed

lemma ones_toString2:
  "n < 2 ^ k \<Longrightarrow>
   length (filter (\<lambda>x. x = CHR ''1'') (toString2 n)) = length (filter (bit n) [0..<k])"
proof (induction n arbitrary: k rule: toString2.induct)
  case (1 n)
  show ?case
  proof (cases "n = 0")
    case True
    then show ?thesis
      by (simp add: toString2.simps [of 0] digit_def)
  next
    case False
    with "1.prems" obtain k' where k: "k = Suc k'"
      by (cases k) auto
    show ?thesis
    proof (cases "n < 2")
      case True
      with False have "n = 1" by simp
      then show ?thesis
        unfolding k count_bits_Suc
        by (simp add: toString2.simps [of 1] toString2.simps [of "Suc 0"] digit_def)
    next
      case False
      have half: "n div 2 < 2 ^ k'" using "1.prems" k by auto
      have ih: "length (filter (\<lambda>x. x = CHR ''1'') (toString2 (n div 2))) =
          length (filter (bit (n div 2)) [0..<k'])"
        using "1.IH" [OF False half] .
      have m: "n mod 2 = 0 \<or> n mod 2 = 1" by auto
      have "length (filter (\<lambda>x. x = CHR ''1'') (toString2 n)) =
          length (filter (\<lambda>x. x = CHR ''1'') (toString2 (n div 2))) + (if odd n then 1 else 0)"
        using False m by (subst toString2.simps) (auto simp add: digit_def odd_iff_mod_2_eq_one)
      then show ?thesis
        unfolding k count_bits_Suc ih by simp
    qed
  qed
qed

lemma byte_ones: "length (split_str (CHR ''1'') (toString2 (unat (x::byte)))) - 1 = popcount_byte x"
proof -
  have "unat x < 2 ^ 8"
    using unsigned_less [of x] by simp
  then have "length (filter (\<lambda>c. c = CHR ''1'') (toString2 (unat x))) =
      length (filter (bit (unat x)) [0..<8])"
    by (rule ones_toString2)
  also have "filter (bit (unat x)) [0..<8] = filter (bit x) [0..<8]"
    by (rule filter_cong) (simp_all add: bit_unsigned_iff)
  finally show ?thesis
    by (simp add: length_split_str popcount_byte_def)
qed

lemma participation_loop_sum:
  "participation_loop xs p = p + sum_list (map popcount_byte xs)"
  by (induction xs arbitrary: p) (simp_all add: byte_ones [unfolded One_nat_def])

lemma popcount_byte_255: "popcount_byte 0xFF = 8"
proof -
  have "[0..<8] = [0, 1, 2, 3, 4, 5, 6, 7]"
    by (simp add: upt_rec)
  then show ?thesis
    by (simp add: popcount_byte_def)
qed

lemma show_nat_512: "show_nat 512 = ''512''"
proof -
  have "show_nat 5 = ''5''"
    by (subst show_nat.simps) (simp add: digit_def)
  then have "show_nat 51 = ''51''"
    by (subst show_nat.simps) (simp add: digit_def)
  then show ?thesis
    by (subst show_nat.simps) (simp add: digit_def)
qed

text \<open>
  C6. The count that \<^verbatim>\<open>displayUpdateInfo\<close> prints is the population count of the raw bytes of
  \<^verbatim>\<open>syncCommitteeBits\<close>: counting the characters \<^verbatim>\<open>1\<close> in the binary numeral of each byte
  counts its set bits. When the 64 bytes are all \<open>0xFF\<close> (512 bits set), the line reads
  \<^verbatim>\<open>Sync committee participation: 512/512\<close>.
\<close>

theorem displayUpdateInfo_participation_popcount:
  "displayUpdateInfo_participation update =
     popcount (uint8Array (syncCommitteeBits (syncAggregate update))) \<and>
   displayUpdateInfo_participation_line update =
     Log (''Sync committee participation: '' @
          show_nat (popcount (uint8Array (syncCommitteeBits (syncAggregate update)))) @
          ''/512'') \<and>
   (uint8Array (syncCommitteeBits (syncAggregate update)) = replicate 64 0xFF \<longrightarrow>
      displayUpdateInfo_participation update = 512 \<and>
      displayUpdateInfo_participation_line update =
        Log ''Sync committee participation: 512/512'')"
proof -
  have p: "displayUpdateInfo_participation update =
     popcount (uint8Array (syncCommitteeBits (syncAggregate update)))"
    by (simp add: displayUpdateInfo_participation_def Let_def participation_loop_sum popcount_def)
  have "popcount (replicate 64 0xFF) = 512"
    by (simp add: popcount_def sum_list_replicate popcount_byte_255)
  then show ?thesis
    unfolding displayUpdateInfo_participation_line_def p
    by (simp add: show_nat_512)
qed

theorem displayUpdateInfo_participation_popcount_witness:
  "uint8Array (syncCommitteeBits (syncAggregate sample_update)) = replicate 64 0xFF \<and>
   displayUpdateInfo_participation sample_update = 512 \<and>
   displayUpdateInfo_participation_line sample_update =
     Log ''Sync committee participation: 512/512''"
proof -
  have a: "uint8Array (syncCommitteeBits (syncAggregate sample_update)) = replicate 64 0xFF"
    by (simp add: sample_update_def)
  show ?thesis
    using displayUpdateInfo_participation_popcount [of sample_update] a by blast
qed

end
